theory Spec2Isabelle
  imports Complex_Main
begin

section \<open>timesync: a shallow embedding of stat.js, util.js and timesync.js\<close>

text \<open>
  Conventions of the embedding.

  \<^item> A JavaScript number is a \<open>real\<close>: rounding, \<open>NaN\<close> and the infinities are not
    represented. Where a value may be \<open>undefined\<close> or \<open>null\<close> it is an \<open>option\<close>.
  \<^item> A thrown exception is the \<open>Inl\<close> of a sum, or the \<open>Rejected\<close> state of the promise an
    \<open>async\<close> function returns.
  \<^item> A promise is represented by the state it settles in; \<open>Pending\<close> is a promise that never
    settles. \<open>await p\<close> continues with the value of a fulfilled \<open>p\<close>, throws the reason of a
    rejected one, and leaves the awaiting function pending for a pending one.
  \<^item> Everything the instance observes of its host is explicit: the override of \<open>send\<close> says
    how a call to it ends, the clock option is the sequence of its readings, and what the host
    does while a request is awaited (delivering a message through \<open>receive\<close>, letting the
    promise returned by \<open>send\<close> reject) is a list of host events per request id.
  \<^item> The class body of timesync.js lists its members in object notation
    (\<open>offset: 0\<close>, \<open>sync: async function () ...\<close>) and its constructor assigns to \<open>this\<close>
    directly. The embedding reads the declaration as the object it describes: the fields with
    their initial values, and the functions as methods. Inside the function bodies nothing is
    read charitably: identifiers are resolved in the scope the text gives them, and \<open>this\<close>
    is what the call site binds it to.
  \<^item> Names that start with an underscore in the source lose it (\<open>_getOffset\<close> is
    \<open>getOffset\<close>), since an Isabelle name cannot start with one.
\<close>

subsection \<open>Errors, promises, scopes\<close>

datatype error = ReferenceError string | TypeError string | Error string

datatype 'a promise = Pending | Fulfilled 'a | Rejected error

text \<open>
  The bindings visible at a program point, by name. Reading an identifier that no enclosing
  scope binds throws a \<open>ReferenceError\<close>.
\<close>

type_synonym 'v scope = "string \<rightharpoonup> 'v"

definition ident :: "'v scope \<Rightarrow> string \<Rightarrow> error + 'v" where
  "ident sc x =
     (case sc x of
        None \<Rightarrow> Inl (ReferenceError (x @ '' is not defined''))
      | Some v \<Rightarrow> Inr v)"

subsection \<open>stat.js\<close>

definition compare :: "real \<Rightarrow> real \<Rightarrow> int" where
  "compare a b = (if a > b then 1 else if a < b then - 1 else 0)"

definition add :: "real \<Rightarrow> real \<Rightarrow> real" where
  "add a b = a + b"

text \<open>
  \<open>Array.prototype.reduce\<close> without an initial value: the first element starts the
  accumulator, and an empty array throws a \<open>TypeError\<close>.
\<close>

definition reduce :: "('a \<Rightarrow> 'a \<Rightarrow> 'a) \<Rightarrow> 'a list \<Rightarrow> error + 'a" where
  "reduce f arr =
     (case arr of
        [] \<Rightarrow> Inl (TypeError ''Reduce of empty array with no initial value'')
      | x # xs \<Rightarrow> Inr (foldl f x xs))"

definition sum_arr :: "real list \<Rightarrow> error + real" where
  "sum_arr arr = reduce add arr"

definition mean :: "real list \<Rightarrow> error + real" where
  "mean arr =
     (case sum_arr arr of
        Inl e \<Rightarrow> Inl e
      | Inr s \<Rightarrow> Inr (s / real (length arr)))"

definition variance :: "real list \<Rightarrow> error + real" where
  "variance arr =
     (if length arr < 2 then Inr 0
      else
        (case mean arr of
           Inl e \<Rightarrow> Inl e
         | Inr m \<Rightarrow>
             (case reduce add (map (\<lambda>x. (x - m) ^ 2) arr) of
                Inl e \<Rightarrow> Inl e
              | Inr s \<Rightarrow> Inr (s / (real (length arr) - 1)))))"

definition std :: "real list \<Rightarrow> error + real" where
  "std arr =
     (case variance arr of
        Inl e \<Rightarrow> Inl e
      | Inr v \<Rightarrow> Inr (sqrt v))"

text \<open>
  What an identifier of \<open>median\<close> can be bound to, and the two operations the body applies
  to such a value. \<open>index_at b i\<close> is \<open>b[i]\<close>: \<open>None\<close> (\<open>undefined\<close>) unless \<open>b\<close> is an
  array and \<open>i\<close> one of its indices.
\<close>

datatype binding = Number real | Array "real list"

definition less_than :: "binding \<Rightarrow> real \<Rightarrow> bool" where
  "less_than b k = (case b of Number n \<Rightarrow> n < k | Array xs \<Rightarrow> False)"

definition index_at :: "binding \<Rightarrow> real \<Rightarrow> real option" where
  "index_at b i =
     (case b of
        Number n \<Rightarrow> None
      | Array xs \<Rightarrow>
          (if 0 \<le> i \<and> real (nat \<lfloor>i\<rfloor>) = i \<and> nat \<lfloor>i\<rfloor> < length xs
           then Some (xs ! nat \<lfloor>i\<rfloor>) else None))"

text \<open>
  \<open>median\<close>, statement by statement. The function's scope binds its parameter \<open>arr\<close> and
  its constants \<open>half\<close> and \<open>mod2\<close>; the module binds the seven functions of stat.js.
  The identifiers \<open>len\<close> and \<open>sorted\<close> of the body are bound by neither. The result is
  \<open>None\<close> where the source's expression yields \<open>undefined\<close> or \<open>NaN\<close>.
\<close>

definition median :: "real list \<Rightarrow> error + real option" where
  "median arr =
     (let sc0 = [''arr'' \<mapsto> Array arr] in
      case ident sc0 ''len'' of
        Inl e \<Rightarrow> Inl e
      | Inr len \<Rightarrow>
          if less_than len 2 then Inr (index_at (Array arr) 0)
          else
            (let half = real (length arr) / 2;
                 mod2 = length arr mod 2;
                 arr' = sort arr;
                 sc1 = [''arr'' \<mapsto> Array arr', ''half'' \<mapsto> Number half,
                        ''mod2'' \<mapsto> Number (real mod2)]
             in if mod2 = 0 then
                  (case ident sc1 ''sorted'' of
                     Inl e \<Rightarrow> Inl e
                   | Inr sorted_v \<Rightarrow>
                       (case (index_at sorted_v half, index_at sorted_v (half - 1)) of
                          (Some a, Some b) \<Rightarrow> Inr (Some ((a + b) / 2))
                        | _ \<Rightarrow> Inr None))
                else
                  (case ident sc1 ''sorted'' of
                     Inl e \<Rightarrow> Inl e
                   | Inr sorted_v \<Rightarrow> Inr (index_at sorted_v (half - 0.5)))))"

subsection \<open>The instance and its host\<close>

type_synonym peer = string

text \<open>
  The wire envelope \<open>{jsonrpc, id, method, params, result}\<close>; a field that is absent is
  \<open>None\<close>. Ids are the numbers \<open>nextId\<close> produces.
\<close>

record envelope =
  jsonrpc :: string
  rpc_id :: "nat option"
  rpc_method :: "string option"
  rpc_params :: "string option"
  rpc_result :: "real option"

text \<open>An argument of \<open>receive\<close> or \<open>send\<close>: \<open>undefined\<close>, a peer's name, or a message.\<close>

datatype arg = Undefined | Source peer | Message envelope

text \<open>
  How a call of the host's \<open>send\<close> ends: it throws, it returns a promise (that the host may
  later let reject), or it returns something that is no promise.
\<close>

datatype sent = Throws error | ReturnsPromise | ReturnsOther

datatype payload = Text string | Value real

text \<open>
  The function \<open>rpc\<close> stores under a request id: it closes over that id and over the
  \<open>resolve\<close> of the request's promise.
\<close>

datatype handler = Handler nat

text \<open>
  What \<open>this\<close> is bound to at a call: nothing (a plain call \<open>f()\<close> in strict code, and a
  function handed to \<open>then\<close>), the instance (\<open>this.f()\<close>), or the object \<open>_inProgress\<close>
  (\<open>this._inProgress[id](...)\<close>: the receiver of a member call is the object the member is
  read from).
\<close>

datatype this = ThisUndefined | ThisInstance | ThisInProgress

record options =
  interval :: "real option"
  timeout :: real
  delay :: real
  repeat :: int
  peers :: "peer list"
  server :: "peer option"
  now :: "nat \<Rightarrow> real"

record sample =
  roundtrip :: real
  sample_offset :: real

text \<open>
  The instance (\<open>options\<close>, \<open>offset\<close>, \<open>timer\<close> for \<open>_interval\<close>, \<open>inProgress\<close>,
  \<open>isFirst\<close>, \<open>send\<close>) together with what it shares with its surroundings: the id counter
  \<open>_id\<close> of util.js, the number of clock readings taken so far, the state of the promise
  each request created, the requests whose \<open>send\<close> promise carries the \<open>catch\<close> of \<open>rpc\<close>,
  the events emitted, and the calls made to \<open>send\<close>.
\<close>

record timesync =
  options :: options
  offset :: real
  timer :: "real option"
  inProgress :: "nat \<rightharpoonup> handler"
  isFirst :: bool
  send :: "arg \<Rightarrow> envelope \<Rightarrow> real option \<Rightarrow> sent"
  next_id :: nat
  readings :: nat
  promises :: "nat \<Rightarrow> real option promise"
  catching :: "nat set"
  emitted :: "(string \<times> payload) list"
  sent_log :: "(arg \<times> envelope) list"

text \<open>A host event: the host calls \<open>receive(from, data)\<close>, or the promise that \<open>send\<close>
  returned for a request rejects.\<close>

datatype host_event = Receive arg arg | SendRejected nat

type_synonym host = "nat \<Rightarrow> host_event list"

subsection \<open>util.js\<close>

definition nextId :: "timesync \<Rightarrow> nat \<times> timesync" where
  "nextId st = (next_id st, st\<lparr>next_id := next_id st + 1\<rparr>)"

text \<open>\<open>wait(delay)\<close> is a promise that the timer fulfils.\<close>

definition wait :: "real \<Rightarrow> unit promise" where
  "wait d = Fulfilled ()"

text \<open>
  \<open>whilst(condition, callback)\<close>: \<open>while (condition()) { await callback() }\<close>. The loop
  need not end, so the result is an \<open>option\<close> and \<open>None\<close> is a loop that runs forever.
  A condition that throws, or a callback whose promise rejects, rejects the loop's promise.
\<close>

partial_function (option) whilst ::
  "('s \<Rightarrow> error + bool) \<Rightarrow> ('s \<Rightarrow> unit promise \<times> 's) \<Rightarrow> 's \<Rightarrow> (unit promise \<times> 's) option"
where
  "whilst condition callback s =
     (case condition s of
        Inl e \<Rightarrow> Some (Rejected e, s)
      | Inr go \<Rightarrow>
          if go then
            (case callback s of
               (Fulfilled u, s') \<Rightarrow> whilst condition callback s'
             | (Rejected e, s') \<Rightarrow> Some (Rejected e, s')
             | (Pending, s') \<Rightarrow> Some (Pending, s'))
          else Some (Fulfilled (), s))"

subsection \<open>timesync.js: events, clock, the request correlator\<close>

text \<open>
  Modelled from the spec: \<open>emit\<close>. The class extends \<open>EventTarget\<close> and calls
  \<open>this.emit(name, payload)\<close>, which no file of the repository defines; the specification
  describes it as emitting the named event with its payload. Here it appends the event to the
  instance's record of emitted events.
\<close>

definition emit :: "string \<Rightarrow> payload \<Rightarrow> timesync \<Rightarrow> timesync" where
  "emit name p st = st\<lparr>emitted := emitted st @ [(name, p)]\<rparr>"

text \<open>\<open>this.options.now()\<close>: the next reading of the clock.\<close>

definition options_now :: "timesync \<Rightarrow> real \<times> timesync" where
  "options_now st = (now (options st) (readings st), st\<lparr>readings := readings st + 1\<rparr>)"

text \<open>The method \<open>now\<close>: \<open>this.options.now() + this.offset\<close>.\<close>

definition now_ts :: "timesync \<Rightarrow> real \<times> timesync" where
  "now_ts st = (case options_now st of (t, st1) \<Rightarrow> (t + offset st1, st1))"

text \<open>A promise settles once: \<open>resolve\<close> and \<open>reject\<close> on a settled promise do nothing.\<close>

definition settle :: "nat \<Rightarrow> real option promise \<Rightarrow> timesync \<Rightarrow> timesync" where
  "settle i p st =
     (if promises st i = Pending then st\<lparr>promises := (promises st)(i := p)\<rparr> else st)"

text \<open>
  \<open>_handleRPCSendError(id, reject, err)\<close>, called on the instance by \<open>rpc\<close>, directly and
  through \<open>bind(this, id, reject)\<close>.
\<close>

definition handleRPCSendError :: "nat \<Rightarrow> timesync \<Rightarrow> timesync" where
  "handleRPCSendError i st =
     settle i (Rejected (Error ''Send failure''))
       (st\<lparr>inProgress := (inProgress st)(i := None)\<rparr>)"

text \<open>
  The value of \<open>this._inProgress\<close> under each binding of \<open>this\<close>: reading a property of
  \<open>undefined\<close> throws; the instance has the field; the object \<open>_inProgress\<close> holds request
  ids only, so the property is \<open>undefined\<close> on it (\<open>None\<close>).
\<close>

definition this_inProgress :: "this \<Rightarrow> timesync \<Rightarrow> error + (nat \<rightharpoonup> handler) option" where
  "this_inProgress t st =
     (case t of
        ThisUndefined \<Rightarrow>
          Inl (TypeError ''Cannot read properties of undefined (reading _inProgress)'')
      | ThisInstance \<Rightarrow> Inr (Some (inProgress st))
      | ThisInProgress \<Rightarrow> Inr None)"

text \<open>
  The body of the stored function, \<open>delete this._inProgress[id]; resolve(data)\<close>, run with
  \<open>this\<close> bound to \<open>t\<close>. \<open>delete\<close> on a property of \<open>undefined\<close> throws a \<open>TypeError\<close>.
  The result is the exception thrown, if any, and the state.
\<close>

definition call_handler ::
  "this \<Rightarrow> handler \<Rightarrow> real option \<Rightarrow> timesync \<Rightarrow> error option \<times> timesync" where
  "call_handler t h data st =
     (case h of Handler i \<Rightarrow>
        (case this_inProgress t st of
           Inl e \<Rightarrow> (Some e, st)
         | Inr None \<Rightarrow> (Some (TypeError ''Cannot convert undefined or null to object''), st)
         | Inr (Some m) \<Rightarrow>
             (None, settle i (Fulfilled data) (st\<lparr>inProgress := m(i := None)\<rparr>))))"

text \<open>
  \<open>receive(from, data)\<close>. A value that is not a message has no \<open>id\<close>, and a message
  without an \<open>id\<close> is in neither branch.
\<close>

definition receive :: "arg \<Rightarrow> arg \<Rightarrow> timesync \<Rightarrow> error option \<times> timesync" where
  "receive from data st =
     (case (if data = Undefined then (Undefined, from) else (from, data)) of
        (from', data') \<Rightarrow>
          (case data' of
             Message m \<Rightarrow>
               (case rpc_id m of
                  None \<Rightarrow> (None, st)
                | Some i \<Rightarrow>
                    (case inProgress st i of
                       Some h \<Rightarrow> call_handler ThisInProgress h (rpc_result m) st
                     | None \<Rightarrow>
                         (case now_ts st of
                            (t, st1) \<Rightarrow>
                              (let reply = \<lparr>jsonrpc = ''2.0'', rpc_id = Some i, rpc_method = None,
                                             rpc_params = None, rpc_result = Some t\<rparr>;
                                   st2 = st1\<lparr>sent_log := sent_log st1 @ [(from', reply)]\<rparr>
                               in case send st2 from' reply None of
                                    Throws e \<Rightarrow> (Some e, st2)
                                  | ReturnsPromise \<Rightarrow> (None, st2)
                                  | ReturnsOther \<Rightarrow> (None, st2)))))
           | Undefined \<Rightarrow> (None, st)
           | Source p \<Rightarrow> (None, st)))"

text \<open>
  \<open>rpc(to, method, params)\<close>. The result is the id under which the returned promise is
  kept in \<open>promises\<close>.
\<close>

definition rpc :: "peer \<Rightarrow> string \<Rightarrow> string option \<Rightarrow> timesync \<Rightarrow> nat \<times> timesync" where
  "rpc to method params st =
     (case nextId st of
        (i, st1) \<Rightarrow>
          (let st2 = st1\<lparr>promises := (promises st1)(i := Pending)\<rparr>;
               st3 = st2\<lparr>inProgress := (inProgress st2)(i \<mapsto> Handler i)\<rparr>;
               msg = \<lparr>jsonrpc = ''2.0'', rpc_id = Some i, rpc_method = Some method,
                      rpc_params = params, rpc_result = None\<rparr>;
               st4 = st3\<lparr>sent_log := sent_log st3 @ [(Source to, msg)]\<rparr>
           in case send st4 (Source to) msg (Some (timeout (options st4))) of
                Throws err \<Rightarrow> (i, handleRPCSendError i st4)
              | ReturnsPromise \<Rightarrow> (i, st4\<lparr>catching := insert i (catching st4)\<rparr>)
              | ReturnsOther \<Rightarrow> (i, st4)))"

text \<open>What the host does to the instance; an exception \<open>receive\<close> throws goes to the host.\<close>

definition host_step :: "host_event \<Rightarrow> timesync \<Rightarrow> timesync" where
  "host_step ev st =
     (case ev of
        Receive from data \<Rightarrow> snd (receive from data st)
      | SendRejected i \<Rightarrow> (if i \<in> catching st then handleRPCSendError i st else st))"

definition run_host :: "host_event list \<Rightarrow> timesync \<Rightarrow> timesync" where
  "run_host evs st = fold host_step evs st"

subsection \<open>timesync.js: the peer sampler\<close>

text \<open>
  \<open>_getOffset\<close> from the point where \<open>await this.rpc(peer, 'timesync')\<close> settles, given
  the reading \<open>start\<close> and the state of the awaited promise. The \<open>const timestamp\<close> of the
  source is declared inside the block of \<open>try\<close>, so the scope of the statements after the
  block holds \<open>start\<close>, \<open>end\<close> and \<open>roundtrip\<close> only.
\<close>

definition getOffset_resume ::
  "real \<Rightarrow> real option promise \<Rightarrow> timesync \<Rightarrow> sample option promise \<times> timesync" where
  "getOffset_resume start awaited st =
     (case awaited of
        Pending \<Rightarrow> (Pending, st)
      | Rejected err \<Rightarrow> (Fulfilled None, st)
      | Fulfilled timestamp_in_try \<Rightarrow>
          (case options_now st of
             (end_t, st1) \<Rightarrow>
               (let roundtrip_v = end_t - start;
                    sc = [''start'' \<mapsto> start, ''end'' \<mapsto> end_t, ''roundtrip'' \<mapsto> roundtrip_v]
                in case ident sc ''timestamp'' of
                     Inl e \<Rightarrow> (Rejected e, st1)
                   | Inr timestamp \<Rightarrow>
                       (let offset_v = timestamp - end_t + roundtrip_v / 2;
                            st2 = (if isFirst st1
                                   then emit ''change'' (Value offset_v)
                                          (st1\<lparr>isFirst := False, offset := offset_v\<rparr>)
                                   else st1)
                        in (Fulfilled (Some \<lparr>roundtrip = roundtrip_v, sample_offset = offset_v\<rparr>),
                            st2)))))"

text \<open>
  \<open>_getOffset(peer)\<close>, called on the instance: read the clock, issue the request, let the
  host act on it, and resume with the state the request's promise is then in.
\<close>

definition getOffset :: "peer \<Rightarrow> host \<Rightarrow> timesync \<Rightarrow> sample option promise \<times> timesync" where
  "getOffset peer h st =
     (case options_now st of
        (start, st1) \<Rightarrow>
          (case rpc peer ''timesync'' None st1 of
             (i, st2) \<Rightarrow>
               (let st3 = run_host (h i) st2
                in getOffset_resume start (promises st3 i) st3)))"

text \<open>
  The three functions declared inside \<open>_syncWithPeer\<close>, each with the binding of \<open>this\<close> it
  is called under as first argument. Their shared state is the array \<open>all\<close> and the instance.

  \<open>sync\<close>: \<open>return this._getOffset(peer).then(result => all.push(result))\<close>.
\<close>

definition sync_inner ::
  "this \<Rightarrow> peer \<Rightarrow> host \<Rightarrow> sample option list \<times> timesync
     \<Rightarrow> unit promise \<times> sample option list \<times> timesync" where
  "sync_inner t peer h s =
     (case s of
        (all, st) \<Rightarrow>
          (case t of
             ThisUndefined \<Rightarrow>
               (Rejected (TypeError ''Cannot read properties of undefined (reading _getOffset)''), s)
           | ThisInProgress \<Rightarrow> (Rejected (TypeError ''this._getOffset is not a function''), s)
           | ThisInstance \<Rightarrow>
               (case getOffset peer h st of
                  (Fulfilled result, st') \<Rightarrow> (Fulfilled (), all @ [result], st')
                | (Rejected e, st') \<Rightarrow> (Rejected e, all, st')
                | (Pending, st') \<Rightarrow> (Pending, all, st'))))"

text \<open>
  \<open>waitAndSync\<close>: \<open>return util.wait(this.options.delay).then(sync)\<close>. The function given
  to \<open>then\<close> is called with no \<open>this\<close>.
\<close>

definition waitAndSync ::
  "this \<Rightarrow> peer \<Rightarrow> host \<Rightarrow> sample option list \<times> timesync
     \<Rightarrow> unit promise \<times> sample option list \<times> timesync" where
  "waitAndSync t peer h s =
     (case t of
        ThisUndefined \<Rightarrow>
          (Rejected (TypeError ''Cannot read properties of undefined (reading options)''), s)
      | ThisInProgress \<Rightarrow>
          (Rejected (TypeError ''Cannot read properties of undefined (reading delay)''), s)
      | ThisInstance \<Rightarrow>
          (case wait (delay (options (snd s))) of
             Fulfilled u \<Rightarrow> sync_inner ThisUndefined peer h s
           | Rejected e \<Rightarrow> (Rejected e, s)
           | Pending \<Rightarrow> (Pending, s)))"

text \<open>\<open>notDone\<close>: \<open>return all.length < this.options.repeat\<close>.\<close>

definition notDone :: "this \<Rightarrow> sample option list \<times> timesync \<Rightarrow> error + bool" where
  "notDone t s =
     (case t of
        ThisUndefined \<Rightarrow> Inl (TypeError ''Cannot read properties of undefined (reading options)'')
      | ThisInProgress \<Rightarrow> Inl (TypeError ''Cannot read properties of undefined (reading repeat)'')
      | ThisInstance \<Rightarrow> Inr (int (length (fst s)) < repeat (options (snd s))))"

text \<open>
  The statements of \<open>_syncWithPeer\<close> after the loop: drop the \<open>null\<close> results, compute the
  limit, keep the results under it, average their offsets. A limit that is no number
  (\<open>None\<close>) is greater than no roundtrip.
\<close>

definition aggregate :: "sample option list \<Rightarrow> real option promise" where
  "aggregate all =
     (let results = map the (filter (\<lambda>result. result \<noteq> None) all);
          roundtrips = map roundtrip results
      in case std roundtrips of
           Inl e \<Rightarrow> Rejected e
         | Inr sd \<Rightarrow>
             (case median roundtrips of
                Inl e \<Rightarrow> Rejected e
              | Inr med \<Rightarrow>
                  (let filtered = (case med of
                                     None \<Rightarrow> []
                                   | Some m \<Rightarrow> filter (\<lambda>result. roundtrip result < sd + m) results);
                       offsets = map sample_offset filtered
                   in if length offsets > 0 then
                        (case mean offsets of
                           Inl e \<Rightarrow> Rejected e
                         | Inr v \<Rightarrow> Fulfilled (Some v))
                      else Fulfilled None)))"

text \<open>
  \<open>_syncWithPeer(peer)\<close>: \<open>await sync()\<close>, then
  \<open>await util.whilst(notDone, waitAndSync)\<close>, then the aggregation. \<open>sync()\<close> is a plain
  call, and \<open>whilst\<close> calls \<open>condition()\<close> and \<open>callback()\<close> plainly: all three run with no
  \<open>this\<close>. \<open>None\<close> is a loop that never ends.
\<close>

definition syncWithPeer ::
  "peer \<Rightarrow> host \<Rightarrow> timesync \<Rightarrow> (real option promise \<times> timesync) option" where
  "syncWithPeer peer h st =
     (case sync_inner ThisUndefined peer h ([], st) of
        (Rejected e, all, st1) \<Rightarrow> Some (Rejected e, st1)
      | (Pending, all, st1) \<Rightarrow> Some (Pending, st1)
      | (Fulfilled u, s1) \<Rightarrow>
          (case whilst (notDone ThisUndefined) (waitAndSync ThisUndefined peer h) s1 of
             None \<Rightarrow> None
           | Some (Rejected e, all, st2) \<Rightarrow> Some (Rejected e, st2)
           | Some (Pending, all, st2) \<Rightarrow> Some (Pending, st2)
           | Some (Fulfilled u', all, st2) \<Rightarrow> Some (aggregate all, st2)))"

subsection \<open>timesync.js: the orchestrator\<close>

text \<open>\<open>_validOffset\<close>: not \<open>null\<close>, not \<open>NaN\<close>, finite. Every \<open>real\<close> is a finite number.\<close>

definition validOffset :: "real option \<Rightarrow> bool" where
  "validOffset v = (v \<noteq> None)"

text \<open>
  \<open>Promise.all\<close> of promises: fulfilled with the values when all are fulfilled, rejected when
  one is rejected, pending otherwise.
\<close>

fun Promise_all :: "'a promise list \<Rightarrow> 'a list promise" where
  "Promise_all [] = Fulfilled []"
| "Promise_all (Rejected e # ps) = Rejected e"
| "Promise_all (Pending # ps) = (case Promise_all ps of Rejected e \<Rightarrow> Rejected e | _ \<Rightarrow> Pending)"
| "Promise_all (Fulfilled v # ps) =
     (case Promise_all ps of
        Fulfilled vs \<Rightarrow> Fulfilled (v # vs)
      | Rejected e \<Rightarrow> Rejected e
      | Pending \<Rightarrow> Pending)"

text \<open>
  A value that is an array or a promise, and the call \<open>v.filter(f)\<close> on it: arrays have the
  method; a promise has no property \<open>filter\<close>, and calling \<open>undefined\<close> throws.
\<close>

datatype 'a object = ArrayOf "'a list" | PromiseOf "'a list promise"

definition filter_method :: "'a object \<Rightarrow> ('a \<Rightarrow> bool) \<Rightarrow> error + 'a list" where
  "filter_method v f =
     (case v of
        ArrayOf xs \<Rightarrow> Inr (filter f xs)
      | PromiseOf p \<Rightarrow> Inl (TypeError ''all.filter is not a function''))"

text \<open>
  \<open>peers.map(peer => this._syncWithPeer(peer))\<close>: the calls are made in the order of the
  list, each on the state the one before left.
\<close>

fun map_peers ::
  "(peer \<Rightarrow> timesync \<Rightarrow> ('a \<times> timesync) option) \<Rightarrow> peer list \<Rightarrow> timesync
     \<Rightarrow> ('a list \<times> timesync) option" where
  "map_peers f [] st = Some ([], st)"
| "map_peers f (p # ps) st =
     (case f p st of
        None \<Rightarrow> None
      | Some (r, st1) \<Rightarrow>
          (case map_peers f ps st1 of
             None \<Rightarrow> None
           | Some (rs, st2) \<Rightarrow> Some (r # rs, st2)))"

text \<open>
  \<open>sync()\<close>, called on the instance. \<open>all\<close> is the promise \<open>Promise.all\<close> returns; the
  source does not await it.
\<close>

definition sync :: "host \<Rightarrow> timesync \<Rightarrow> (unit promise \<times> timesync) option" where
  "sync h st =
     (let st1 = emit ''sync'' (Text ''start'') st;
          ps = (case server (options st1) of
                  None \<Rightarrow> peers (options st1)
                | Some s \<Rightarrow> if s \<noteq> [] then [s] else peers (options st1))
      in case map_peers (\<lambda>peer. syncWithPeer peer h) ps st1 of
           None \<Rightarrow> None
         | Some (started, st2) \<Rightarrow>
             (let all = PromiseOf (Promise_all started)
              in case filter_method all validOffset of
                   Inl e \<Rightarrow> Some (Rejected e, st2)
                 | Inr offsets \<Rightarrow>
                     if length offsets > 0 then
                       (case mean (map the offsets) of
                          Inl e \<Rightarrow> Some (Rejected e, st2)
                        | Inr m \<Rightarrow>
                            (let st3 = st2\<lparr>offset := m\<rparr>;
                                 st4 = emit ''change'' (Value (offset st3)) st3
                             in Some (Fulfilled (), emit ''sync'' (Text ''end'') st4)))
                     else Some (Fulfilled (), emit ''sync'' (Text ''end'') st2)))"

subsection \<open>timesync.js: the constructor\<close>

text \<open>
  The options object given to the constructor: a key that is absent is \<open>None\<close>; \<open>interval\<close>
  and \<open>server\<close> can be given as \<open>null\<close> (\<open>Some None\<close>); \<open>peers\<close> is an array or a string.
\<close>

datatype peers_option = PeersArray "peer list" | PeersString string

record given_options =
  given_interval :: "real option option"
  given_timeout :: "real option"
  given_delay :: "real option"
  given_repeat :: "int option"
  given_peers :: "peers_option option"
  given_server :: "string option option"
  given_now :: "(nat \<Rightarrow> real) option"

text \<open>Truthiness: a string is truthy unless empty, an array always, \<open>null\<close> and
  \<open>undefined\<close> never.\<close>

definition truthy_server :: "string option option \<Rightarrow> bool" where
  "truthy_server v = (case v of Some (Some s) \<Rightarrow> s \<noteq> [] | _ \<Rightarrow> False)"

definition truthy_peers :: "peers_option option \<Rightarrow> bool" where
  "truthy_peers v =
     (case v of
        Some (PeersArray ps) \<Rightarrow> True
      | Some (PeersString s) \<Rightarrow> s \<noteq> []
      | None \<Rightarrow> False)"

text \<open>\<open>String.prototype.split\<close> on a one-character separator, and \<open>trim\<close>.\<close>

fun split :: "char \<Rightarrow> string \<Rightarrow> string list" where
  "split c [] = [[]]"
| "split c (x # xs) =
     (if x = c then [] # split c xs
      else (case split c xs of [] \<Rightarrow> [[x]] | y # ys \<Rightarrow> (x # y) # ys))"

definition whitespace :: "char \<Rightarrow> bool" where
  "whitespace c = (c = CHR '' '' \<or> c = CHR 0x09 \<or> c = CHR 0x0A \<or> c = CHR 0x0B
                   \<or> c = CHR 0x0C \<or> c = CHR 0x0D)"

definition trim :: "string \<Rightarrow> string" where
  "trim s = rev (dropWhile whitespace (rev (dropWhile whitespace s)))"

text \<open>
  \<open>defaultOptions\<close>; \<open>Date.now\<close>, the system clock, is a parameter.
\<close>

definition defaultOptions :: "(nat \<Rightarrow> real) \<Rightarrow> options" where
  "defaultOptions date_now =
     \<lparr>interval = Some (60 * 60 * 1000), timeout = 10000, delay = 1000, repeat = 5,
      peers = [], server = None, now = date_now\<rparr>"

text \<open>The first statement of the constructor.\<close>

definition check_exclusive :: "given_options \<Rightarrow> error + unit" where
  "check_exclusive g =
     (if truthy_server (given_server g) \<and> truthy_peers (given_peers g)
      then Inl (Error ''Configure either option \"peers\" or \"server\", not both.'')
      else Inr ())"

text \<open>
  \<open>{...TimeSync.defaultOptions, ...options}\<close>, followed by the splitting of a \<open>peers\<close>
  string at its commas.
\<close>

definition merge_options :: "(nat \<Rightarrow> real) \<Rightarrow> given_options \<Rightarrow> options" where
  "merge_options date_now g =
     (let d = defaultOptions date_now
      in \<lparr>interval = (case given_interval g of None \<Rightarrow> interval d | Some v \<Rightarrow> v),
          timeout = (case given_timeout g of None \<Rightarrow> timeout d | Some v \<Rightarrow> v),
          delay = (case given_delay g of None \<Rightarrow> delay d | Some v \<Rightarrow> v),
          repeat = (case given_repeat g of None \<Rightarrow> repeat d | Some v \<Rightarrow> v),
          peers = (case given_peers g of
                     None \<Rightarrow> peers d
                   | Some (PeersArray ps) \<Rightarrow> ps
                   | Some (PeersString s) \<Rightarrow>
                       filter (\<lambda>peer. peer \<noteq> []) (map trim (split CHR '','' s))),
          server = (case given_server g of None \<Rightarrow> server d | Some v \<Rightarrow> v),
          now = (case given_now g of None \<Rightarrow> now d | Some v \<Rightarrow> v)\<rparr>)"

text \<open>
  The constructor: the check, the options, and the fields with their initial values. The
  timer of the automatic synchronisation is armed when \<open>interval\<close> is not \<open>null\<close>; the
  synchronisations it starts are calls of \<open>sync\<close> by the host and are not part of the
  construction. The override of \<open>send\<close> is given with the options.
\<close>

definition constructor ::
  "(nat \<Rightarrow> real) \<Rightarrow> (arg \<Rightarrow> envelope \<Rightarrow> real option \<Rightarrow> sent) \<Rightarrow> given_options
     \<Rightarrow> error + timesync" where
  "constructor date_now send_override g =
     (case check_exclusive g of
        Inl e \<Rightarrow> Inl e
      | Inr u \<Rightarrow>
          (let opts = merge_options date_now g
           in Inr \<lparr>options = opts, offset = 0, timer = interval opts, inProgress = Map.empty,
                   isFirst = True, send = send_override, next_id = 0, readings = 0,
                   promises = (\<lambda>i. Pending), catching = {}, emitted = [], sent_log = []\<rparr>))"

subsection \<open>Example inputs\<close>

text \<open>
  An instance as the constructor leaves it for the options
  \<open>{peers: ['A', 'B'], interval: null}\<close>, with a clock that reads 100 first and 120 from
  then on, and a \<open>send\<close> that returns a promise.
\<close>

definition example_instance :: timesync where
  "example_instance =
     \<lparr>options = \<lparr>interval = None, timeout = 10000, delay = 1000, repeat = 5,
                  peers = [''A'', ''B''], server = None,
                  now = (\<lambda>k. if k = 0 then 100 else 120)\<rparr>,
      offset = 0, timer = None, inProgress = Map.empty, isFirst = True,
      send = (\<lambda>to msg t. ReturnsPromise), next_id = 0, readings = 0,
      promises = (\<lambda>i. Pending), catching = {}, emitted = [], sent_log = []\<rparr>"

text \<open>The reply \<open>{jsonrpc: '2.0', id: i, result: t}\<close>.\<close>

definition reply_to :: "nat \<Rightarrow> real \<Rightarrow> envelope" where
  "reply_to i t =
     \<lparr>jsonrpc = ''2.0'', rpc_id = Some i, rpc_method = None, rpc_params = None,
      rpc_result = Some t\<rparr>"

text \<open>A host that answers every request by delivering the peer's reply with time 1000.\<close>

definition replying_host :: host where
  "replying_host i = [Receive (Source ''A'') (Message (reply_to i 1000))]"

text \<open>A host on which every request's \<open>send\<close> promise rejects.\<close>

definition failing_host :: host where
  "failing_host i = [SendRejected i]"

text \<open>
  Results of five sampling attempts, one of them failed, with the roundtrips 10, 12, 11
  and 500.
\<close>

definition example_samples :: "sample option list" where
  "example_samples =
     [Some \<lparr>roundtrip = 10, sample_offset = 890\<rparr>, Some \<lparr>roundtrip = 12, sample_offset = 892\<rparr>,
      None, Some \<lparr>roundtrip = 11, sample_offset = 891\<rparr>,
      Some \<lparr>roundtrip = 500, sample_offset = 700\<rparr>]"

text \<open>
  The options \<open>{server: 'A', peers: ['B', 'C'], interval: null}\<close> and
  \<open>{server: 'A', interval: null}\<close>.
\<close>

definition both_given :: given_options where
  "both_given =
     \<lparr>given_interval = Some None, given_timeout = None, given_delay = None,
      given_repeat = None, given_peers = Some (PeersArray [''B'', ''C'']),
      given_server = Some (Some ''A''), given_now = None\<rparr>"

definition server_given :: given_options where
  "server_given =
     \<lparr>given_interval = Some None, given_timeout = None, given_delay = None,
      given_repeat = None, given_peers = None,
      given_server = Some (Some ''A''), given_now = None\<rparr>"

section \<open>Properties\<close>

subsection \<open>Statistics\<close>

lemma foldl_add: "foldl add a xs = a + sum_list xs"
  by (induction xs arbitrary: a) (simp_all add: add_def)

lemma mean_Nil: "mean [] = Inl (TypeError ''Reduce of empty array with no initial value'')"
  by (simp add: mean_def sum_arr_def reduce_def)

lemma mean_nonempty: "arr \<noteq> [] \<Longrightarrow> mean arr = Inr (sum_list arr / real (length arr))"
  by (cases arr) (simp_all add: mean_def sum_arr_def reduce_def foldl_add)

text \<open>
  Claim C7. On a non-empty list \<open>mean\<close> returns the sum of the elements divided by their
  number, and \<open>mean([1,2,3])\<close> is 2; on the empty list it fails. The failure is the
  \<open>TypeError\<close> that \<open>reduce\<close> throws on an empty array, which is what the specification
  calls the empty-input error.
\<close>

theorem mean_arithmetic_or_fails:
  "(arr \<noteq> [] \<longrightarrow> mean arr = Inr (sum_list arr / real (length arr)))
   \<and> mean [] = Inl (TypeError ''Reduce of empty array with no initial value'')
   \<and> mean [1, 2, 3] = Inr 2"
  by (simp add: mean_Nil mean_nonempty)

theorem mean_arithmetic_or_fails_witness:
  "[4, 6] \<noteq> ([] :: real list) \<and> mean [4, 6] = Inr 5"
  using mean_arithmetic_or_fails [of "[4, 6]"] by simp

text \<open>The variance and the standard deviation are defined on every list.\<close>

lemma variance_defined: "\<exists>v. variance arr = Inr v"
proof (cases "length arr < 2")
  case True
  then show ?thesis by (simp add: variance_def)
next
  case False
  then have ne: "arr \<noteq> []" by auto
  then obtain x xs where "map (\<lambda>x. (x - sum_list arr / real (length arr)) ^ 2) arr = x # xs"
    by (cases arr) auto
  with False ne show ?thesis
    by (simp add: variance_def mean_nonempty reduce_def)
qed

lemma std_defined: "\<exists>v. std arr = Inr v"
  using variance_defined [of arr] by (auto simp add: std_def)

text \<open>
  The first statement of \<open>median\<close> reads \<open>len\<close>, which nothing binds: every call throws.
\<close>

lemma median_throws: "median arr = Inl (ReferenceError ''len is not defined'')"
  by (simp add: median_def ident_def)

text \<open>
  Claim C5. The claim gives \<open>median([3,1,2]) = 2\<close> and \<open>median([4,1,3,2]) = 2.5\<close>. The
  source's \<open>median\<close> throws a \<open>ReferenceError\<close> on both lists, as on every other, before it
  looks at its argument.
\<close>

theorem median_examples_throw:
  "median [3, 1, 2] = Inl (ReferenceError ''len is not defined'')
   \<and> median [4, 1, 3, 2] = Inl (ReferenceError ''len is not defined'')"
  by (simp add: median_def ident_def)

subsection \<open>The loop of util.js\<close>

text \<open>
  \<open>whilst\<close> on a counting condition: when the condition compares a measure of the state
  with a bound and every callback fulfils and raises the measure by one, the loop ends with
  the measure at the bound (or where it started, if that was beyond the bound already).
\<close>

lemma whilst_counts:
  assumes cond: "\<And>s. condition s = Inr (f s < n)"
    and step: "\<And>s. f s < n \<Longrightarrow> \<exists>s'. callback s = (Fulfilled (), s') \<and> f s' = Suc (f s)"
  shows "\<exists>s'. whilst condition callback s = Some (Fulfilled (), s') \<and> f s' = max (f s) n"
proof (induction "n - f s" arbitrary: s)
  case 0
  then have "\<not> f s < n" by simp
  then show ?case
    by (subst whilst.simps) (simp add: cond max_def)
next
  case (Suc k)
  then have lt: "f s < n" by simp
  from step [OF lt] obtain s1 where s1: "callback s = (Fulfilled (), s1)" "f s1 = Suc (f s)"
    by blast
  with Suc have "k = n - f s1" by simp
  from Suc.hyps(1) [OF this] obtain s' where
    "whilst condition callback s1 = Some (Fulfilled (), s')" "f s' = max (f s1) n"
    by blast
  with lt s1 show ?case
    by (subst whilst.simps) (simp add: cond max_def)
qed

subsection \<open>The request correlator\<close>

text \<open>
  Claim C9. \<open>receive(e)\<close> does what \<open>receive(undefined, e)\<close> does, for every value
  \<open>e\<close> and in every state: the same exception or none, and the same state after.
\<close>

theorem receive_single_argument: "receive e Undefined st = receive Undefined e st"
  by (cases e) (simp_all add: receive_def)

text \<open>
  A message whose id is that of a pending request makes \<open>receive\<close> call the stored
  function as a member of \<open>_inProgress\<close>. Its \<open>this\<close> is then that object, on which
  \<open>this._inProgress\<close> is \<open>undefined\<close>; \<open>delete\<close> throws, and nothing has changed.
\<close>

lemma receive_reply_throws:
  "rpc_id m = Some i \<Longrightarrow> inProgress st i = Some hnd \<Longrightarrow>
   receive from (Message m) st =
     (Some (TypeError ''Cannot convert undefined or null to object''), st)"
  by (simp add: receive_def call_handler_def this_inProgress_def split: handler.splits)

text \<open>
  The two send failures: when \<open>send\<close> throws, and when the promise it returned rejects,
  the entry is removed and the request's promise is rejected with \<open>Send failure\<close>.
\<close>

lemma rpc_send_throws:
  "send st1 = (\<lambda>to msg t. Throws err) \<Longrightarrow> rpc to method params st1 = (i, st2) \<Longrightarrow>
   i = next_id st1 \<and> inProgress st2 i = None \<and> promises st2 i = Rejected (Error ''Send failure'')"
  by (auto simp add: rpc_def nextId_def handleRPCSendError_def settle_def Let_def)

lemma send_rejected_removes:
  "i \<in> catching st \<Longrightarrow> promises st i = Pending \<Longrightarrow>
   inProgress (host_step (SendRejected i) st) i = None
   \<and> promises (host_step (SendRejected i) st) i = Rejected (Error ''Send failure'')"
  by (simp add: host_step_def handleRPCSendError_def settle_def)

text \<open>
  Claim C4. The claim has the entry of a request removed, and the call resolved, when its
  reply arrives. In the source, after \<open>rpc('A', 'timesync')\<close> on a fresh instance has
  registered request 0, delivering \<open>{jsonrpc: '2.0', id: 0, result: 1000}\<close> makes
  \<open>receive\<close> throw a \<open>TypeError\<close>; the entry stays in \<open>_inProgress\<close> and the promise
  stays pending.
\<close>

theorem reply_leaves_request_pending:
  "(case rpc ''A'' ''timesync'' None example_instance of
      (i, st1) \<Rightarrow>
        i = 0 \<and> inProgress st1 0 = Some (Handler 0) \<and> promises st1 0 = Pending
        \<and> (case receive (Source ''A'') (Message (reply_to 0 1000)) st1 of
             (thrown, st2) \<Rightarrow>
               thrown = Some (TypeError ''Cannot convert undefined or null to object'')
               \<and> inProgress st2 0 = Some (Handler 0) \<and> promises st2 0 = Pending))"
  by (simp add: example_instance_def rpc_def nextId_def Let_def reply_to_def receive_def
      call_handler_def this_inProgress_def)

subsection \<open>The peer sampler\<close>

text \<open>
  Once the request's promise is fulfilled, \<open>_getOffset\<close> reads the clock and then throws
  on the identifier \<open>timestamp\<close>, whatever the value: no sample is ever returned.
\<close>

lemma getOffset_resume_fulfilled:
  "getOffset_resume start (Fulfilled v) st =
     (Rejected (ReferenceError ''timestamp is not defined''), st\<lparr>readings := readings st + 1\<rparr>)"
  by (simp add: getOffset_resume_def options_now_def ident_def)

lemma getOffset_resume_no_sample:
  "fst (getOffset_resume start p st) \<noteq> Fulfilled (Some smp)"
  by (cases p) (simp_all add: getOffset_resume_def options_now_def ident_def)

lemma getOffset_no_sample: "fst (getOffset peer h st) \<noteq> Fulfilled (Some smp)"
  by (simp add: getOffset_def Let_def getOffset_resume_no_sample split: prod.splits)

text \<open>A request whose \<open>send\<close> promise rejects gives \<open>null\<close>.\<close>

lemma getOffset_send_failure:
  "fst (getOffset ''A'' failing_host example_instance) = Fulfilled None"
  by (simp add: example_instance_def getOffset_def rpc_def
      nextId_def options_now_def Let_def failing_host_def run_host_def
      host_step_def handleRPCSendError_def settle_def getOffset_resume_def)

text \<open>
  Claim C2. The claim gives roundtrip 20 and offset 890 for \<open>start = 100\<close>, a reported
  time of 1000 and \<open>end = 120\<close>. In the source, \<open>_getOffset\<close> resumed at clock reading 120
  with the request fulfilled by 1000 is rejected with a \<open>ReferenceError\<close>; and when the
  reply is delivered through \<open>receive\<close>, the request is never fulfilled and \<open>_getOffset\<close>
  stays pending.
\<close>

theorem getOffset_example_no_result:
  "getOffset_resume 100 (Fulfilled (Some 1000)) (example_instance\<lparr>readings := 1\<rparr>) =
     (Rejected (ReferenceError ''timestamp is not defined''), example_instance\<lparr>readings := 2\<rparr>)
   \<and> fst (getOffset ''A'' replying_host example_instance) = Pending"
  by (simp add: getOffset_resume_fulfilled example_instance_def getOffset_def rpc_def
      nextId_def options_now_def Let_def replying_host_def reply_to_def run_host_def
      host_step_def receive_def call_handler_def this_inProgress_def getOffset_resume_def
      ident_def)

text \<open>
  Claim C6. The claim has the first successful sample set the offset, clear the first-offset
  flag and emit \<open>change\<close>. In the source, on an instance that has never applied an offset,
  the same exchange leaves the offset at 0 and the flag set, and emits nothing: the
  statement that applies the first offset comes after the one that throws.
\<close>

theorem first_sample_not_applied:
  "(case getOffset_resume 100 (Fulfilled (Some 1000)) (example_instance\<lparr>readings := 1\<rparr>) of
      (r, st) \<Rightarrow> offset st = 0 \<and> isFirst st \<and> emitted st = [])
   \<and> (case getOffset ''A'' replying_host example_instance of
      (r, st) \<Rightarrow> offset st = 0 \<and> isFirst st \<and> emitted st = [])"
  by (simp add: getOffset_resume_fulfilled example_instance_def getOffset_def rpc_def
      nextId_def options_now_def Let_def replying_host_def reply_to_def run_host_def
      host_step_def receive_def call_handler_def this_inProgress_def getOffset_resume_def
      ident_def)

text \<open>
  \<open>_syncWithPeer\<close> calls its inner function \<open>sync\<close> with no \<open>this\<close>: the promise is
  rejected before anything is sampled, in every state. The aggregation after the loop calls
  \<open>median\<close> and fails on every list of results.
\<close>

lemma syncWithPeer_rejects:
  "syncWithPeer peer h st =
     Some (Rejected (TypeError ''Cannot read properties of undefined (reading _getOffset)''), st)"
  by (simp add: syncWithPeer_def sync_inner_def)

lemma aggregate_rejects: "aggregate all = Rejected (ReferenceError ''len is not defined'')"
  using std_defined [of "map roundtrip (map the (filter (\<lambda>result. result \<noteq> None) all))"]
  by (auto simp add: aggregate_def median_throws Let_def)

text \<open>
  Claim C3. The claim has \<open>_syncWithPeer\<close> discard the results at or above
  \<open>std + median\<close> of the roundtrips and return the mean of the remaining offsets. In the
  source, \<open>_syncWithPeer('A')\<close> is rejected with a \<open>TypeError\<close> and returns no offset; and
  the aggregation, applied to results with the roundtrips 10, 12, 11 and 500, is rejected
  with the \<open>ReferenceError\<close> of \<open>median\<close>.
\<close>

theorem syncWithPeer_example_rejects:
  "syncWithPeer ''A'' replying_host example_instance =
     Some (Rejected (TypeError ''Cannot read properties of undefined (reading _getOffset)''),
           example_instance)
   \<and> aggregate example_samples = Rejected (ReferenceError ''len is not defined'')"
  by (simp add: syncWithPeer_rejects aggregate_rejects)

text \<open>
  Claim C10. The claim has \<open>_syncWithPeer\<close> make \<open>max(1, repeat)\<close> sampling attempts.
  In the source, with \<open>repeat = 5\<close>, it ends without one: no message has been sent, no id
  drawn and no clock reading taken, whether the host would have answered the request or
  failed it.
\<close>

theorem syncWithPeer_no_attempt:
  "(case syncWithPeer ''A'' replying_host example_instance of
      None \<Rightarrow> False
    | Some (r, st) \<Rightarrow>
        repeat (options st) = 5 \<and> sent_log st = [] \<and> next_id st = 0 \<and> readings st = 0)
   \<and> (case syncWithPeer ''A'' failing_host example_instance of
      None \<Rightarrow> False
    | Some (r, st) \<Rightarrow>
        repeat (options st) = 5 \<and> sent_log st = [] \<and> next_id st = 0 \<and> readings st = 0)"
  by (simp add: syncWithPeer_rejects example_instance_def)

subsection \<open>The orchestrator\<close>

lemma map_peers_syncWithPeer:
  "map_peers (\<lambda>peer. syncWithPeer peer h) ps st =
     Some (map (\<lambda>peer. Rejected
                  (TypeError ''Cannot read properties of undefined (reading _getOffset)'')) ps,
           st)"
  by (induction ps) (simp_all add: syncWithPeer_rejects)

text \<open>
  \<open>sync\<close> emits \<open>sync:start\<close> and then calls \<open>filter\<close> on a promise: in every state it
  is rejected with only that one event emitted.
\<close>

lemma sync_rejects:
  "sync h st =
     Some (Rejected (TypeError ''all.filter is not a function''), emit ''sync'' (Text ''start'') st)"
  by (simp add: sync_def Let_def map_peers_syncWithPeer filter_method_def)

text \<open>
  Claim C1. The claim has every \<open>sync()\<close> emit \<open>sync:start\<close>, then \<open>change\<close> if a peer
  gave a valid offset, then \<open>sync:end\<close>. In the source, \<open>sync()\<close> on an instance with the
  peers A and B is rejected with a \<open>TypeError\<close>; the instance is as before but for the one
  event \<open>sync:start\<close>: no \<open>sync:end\<close>, no \<open>change\<close>, the offset still 0.
\<close>

theorem sync_emits_start_only:
  "sync replying_host example_instance =
     Some (Rejected (TypeError ''all.filter is not a function''),
           example_instance\<lparr>emitted := [(''sync'', Text ''start'')]\<rparr>)
   \<and> sync failing_host example_instance =
     Some (Rejected (TypeError ''all.filter is not a function''),
           example_instance\<lparr>emitted := [(''sync'', Text ''start'')]\<rparr>)"
  by (simp add: sync_rejects emit_def example_instance_def)

subsection \<open>The constructor\<close>

text \<open>
  Claim C8. When \<open>server\<close> and \<open>peers\<close> are both given and truthy, the constructor fails
  with the configuration error and returns no instance. Otherwise the check passes and the
  constructor does not fail with that error.
\<close>

theorem constructor_exclusive:
  "(truthy_server (given_server g) \<and> truthy_peers (given_peers g) \<longrightarrow>
      constructor date_now send_override g =
        Inl (Error ''Configure either option \"peers\" or \"server\", not both.''))
   \<and> (\<not> (truthy_server (given_server g) \<and> truthy_peers (given_peers g)) \<longrightarrow>
      check_exclusive g = Inr ()
      \<and> constructor date_now send_override g
          \<noteq> Inl (Error ''Configure either option \"peers\" or \"server\", not both.''))"
  by (simp add: constructor_def check_exclusive_def Let_def)

theorem constructor_exclusive_witness:
  "truthy_server (given_server both_given) \<and> truthy_peers (given_peers both_given)
   \<and> constructor (\<lambda>k. 0) (\<lambda>to msg t. ReturnsPromise) both_given =
       Inl (Error ''Configure either option \"peers\" or \"server\", not both.'')
   \<and> \<not> (truthy_server (given_server server_given) \<and> truthy_peers (given_peers server_given))
   \<and> check_exclusive server_given = Inr ()
   \<and> constructor (\<lambda>k. 0) (\<lambda>to msg t. ReturnsPromise) server_given
        \<noteq> Inl (Error ''Configure either option \"peers\" or \"server\", not both.'')"
  using constructor_exclusive [of both_given "\<lambda>k. 0" "\<lambda>to msg t. ReturnsPromise"]
    constructor_exclusive [of server_given "\<lambda>k. 0" "\<lambda>to msg t. ReturnsPromise"]
  by (simp add: both_given_def server_given_def truthy_server_def truthy_peers_def)

end
